theory Spec2Isabelle
  imports Complex_Main
begin

section \<open>Strings and the URL pattern\<close>

text \<open>
  A TypeScript string is a sequence of UTF-16 code units, and \<open>length\<close>, \<open>trim\<close> and a
  regular expression without the \<open>u\<close> flag all work on code units. A string is modelled as
  the list of its code units, each a natural number; \<open>js\<close> turns a literal of the source
  into that form.
\<close>

type_synonym jsstring = "nat list"

definition js :: "string \<Rightarrow> jsstring" where
  "js s = map of_char s"

text \<open>
  The pattern of \<open>getYouTubeID\<close> is
  \<^verbatim>\<open>/^.*((youtu.be\/)|(v\/)|(\/u\/\w\/)|(embed\/)|(watch\?))\??v?=?([^#&?]*).*/\<close>.
  It is kept as a syntax tree and run by a backtracking matcher in continuation-passing
  style, which tries the choices in the order ECMAScript prescribes: a greedy quantifier
  first takes one more repetition and falls back to the continuation only when that fails,
  and an alternation tries its branches from left to right. Both quantifiers \<open>*\<close> of the
  pattern range over a single character class, and so does \<open>StarA\<close>.
\<close>

datatype regex =
    Eps
  | Atom "nat \<Rightarrow> bool"
  | Cat regex regex
  | Alt regex regex
  | Opt regex
  | StarA "nat \<Rightarrow> bool"
  | Grp nat regex

type_synonym captures = "nat \<Rightarrow> jsstring option"

type_synonym 'r cont = "jsstring \<Rightarrow> captures \<Rightarrow> 'r option"

fun star :: "(nat \<Rightarrow> bool) \<Rightarrow> 'r cont \<Rightarrow> 'r cont" where
  "star p k [] c = k [] c"
| "star p k (x # xs) c =
     (if p x then (case star p k xs c of Some r \<Rightarrow> Some r | None \<Rightarrow> k (x # xs) c)
      else k (x # xs) c)"

fun matcher :: "regex \<Rightarrow> 'r cont \<Rightarrow> 'r cont" where
  "matcher Eps k = k"
| "matcher (Atom p) k = (\<lambda>s c. case s of [] \<Rightarrow> None | x # xs \<Rightarrow> if p x then k xs c else None)"
| "matcher (Cat a b) k = matcher a (matcher b k)"
| "matcher (Alt a b) k =
     (\<lambda>s c. case matcher a k s c of Some r \<Rightarrow> Some r | None \<Rightarrow> matcher b k s c)"
| "matcher (Opt a) k = (\<lambda>s c. case matcher a k s c of Some r \<Rightarrow> Some r | None \<Rightarrow> k s c)"
| "matcher (StarA p) k = star p k"
| "matcher (Grp n a) k =
     (\<lambda>s c. matcher a (\<lambda>s' c'. k s' (c'(n := Some (take (length s - length s') s)))) s c)"

text \<open>The character classes of the pattern.\<close>

definition isLineTerminator :: "nat \<Rightarrow> bool" where
  "isLineTerminator x = (x = 10 \<or> x = 13 \<or> x = 8232 \<or> x = 8233)"

definition dot :: "nat \<Rightarrow> bool" where
  \<comment> \<open>\<open>.\<close> without the \<open>s\<close> flag: any code unit but a line terminator\<close>
  "dot x = (\<not> isLineTerminator x)"

definition wordChar :: "nat \<Rightarrow> bool" where
  \<comment> \<open>\<open>\w\<close>: \<open>[A-Za-z0-9_]\<close>\<close>
  "wordChar x = ((65 \<le> x \<and> x \<le> 90) \<or> (97 \<le> x \<and> x \<le> 122) \<or> (48 \<le> x \<and> x \<le> 57) \<or> x = 95)"

definition notDelim :: "nat \<Rightarrow> bool" where
  \<comment> \<open>\<open>[^#&?]\<close>\<close>
  "notDelim x = (x \<noteq> 35 \<and> x \<noteq> 38 \<and> x \<noteq> 63)"

definition chr :: "char \<Rightarrow> regex" where
  "chr ch = Atom (\<lambda>x. x = of_char ch)"

fun lit :: "string \<Rightarrow> regex" where
  "lit [] = Eps"
| "lit (ch # rest) = Cat (chr ch) (lit rest)"

definition regExp :: regex where
  "regExp =
     Cat (StarA dot)
    (Cat (Grp 1 (Alt (Grp 2 (Cat (lit ''youtu'') (Cat (Atom dot) (lit ''be/''))))
                (Alt (Grp 3 (lit ''v/''))
                (Alt (Grp 4 (Cat (lit ''/u/'') (Cat (Atom wordChar) (lit ''/''))))
                (Alt (Grp 5 (lit ''embed/''))
                     (Grp 6 (lit ''watch?'')))))))
    (Cat (Opt (chr CHR ''?''))
    (Cat (Opt (chr CHR ''v''))
    (Cat (Opt (chr CHR ''=''))
    (Cat (Grp 7 (StarA notDelim))
         (StarA dot))))))"

definition match :: "jsstring \<Rightarrow> captures option" where
  \<comment> \<open>\<open>url.match(regExp)\<close>: the pattern starts with \<open>^\<close> and has no \<open>m\<close> flag, so a match
      can only start at index 0; group 0 is not used by the caller\<close>
  "match url = matcher regExp (\<lambda>s c. Some c) url (\<lambda>n. None)"

datatype error = TypeError

definition getYouTubeID :: "jsstring \<Rightarrow> error + jsstring option" where
  \<comment> \<open>\<open>match[7].length\<close> on an undefined group would throw\<close>
  "getYouTubeID url =
     (case match url of
        None \<Rightarrow> Inr None
      | Some m \<Rightarrow>
          (case m 7 of
             None \<Rightarrow> Inl TypeError
           | Some g \<Rightarrow> Inr (if length g = 11 then Some g else None)))"


section \<open>Data model\<close>

text \<open>
  A TypeScript \<open>number\<close> is modelled as a real: the arithmetic of the handlers is exact,
  and the model follows the source wherever its values are finite and no divisor is zero.
  \<open>canvas.width\<close>, \<open>canvas.height\<close> and an image's natural size are unsigned integers.
\<close>

type_synonym number = real

record AdjustmentSettings =
  brightness :: number
  contrast :: number
  saturation :: number
  grayscale :: number
  sepia :: number
  blur :: number

definition DEFAULT_ADJUSTMENTS :: AdjustmentSettings where
  "DEFAULT_ADJUSTMENTS =
     \<lparr>brightness = 100, contrast = 100, saturation = 100, grayscale = 0, sepia = 0, blur = 0\<rparr>"

text \<open>
  The fields \<open>id\<close>, \<open>text\<close>, \<open>x\<close> and \<open>y\<close> of \<open>TextOverlay\<close> carry the prefix \<open>ov_\<close>:
  their own names are taken in Isabelle.
\<close>

record TextOverlay =
  ov_id :: jsstring
  ov_text :: jsstring
  ov_x :: number
  ov_y :: number
  color :: jsstring
  fontSize :: number
  fontFamily :: jsstring

text \<open>The state cells of the \<open>App\<close> component, one field for each \<open>useState\<close>.\<close>

record AppState =
  youtubeUrl :: jsstring
  currentImage :: "jsstring option"
  adjustments :: AdjustmentSettings
  aiPrompt :: jsstring
  isProcessing :: bool
  errorMsg :: "jsstring option"
  textOverlays :: "TextOverlay list"
  newText :: jsstring
  selectedTextId :: "jsstring option"
  isDragging :: bool
  dragOffset :: "number \<times> number"

definition initialState :: AppState where
  "initialState =
     \<lparr>youtubeUrl = [], currentImage = None, adjustments = DEFAULT_ADJUSTMENTS, aiPrompt = [],
      isProcessing = False, errorMsg = None, textOverlays = [], newText = [],
      selectedTextId = None, isDragging = False, dragOffset = (0, 0)\<rparr>"

text \<open>
  \<open>!s\<close> on a \<open>string | null\<close>: true for \<open>null\<close> and for the empty string.
\<close>

definition falsy :: "jsstring option \<Rightarrow> bool" where
  "falsy v = (v = None \<or> v = Some [])"

text \<open>
  \<open>String.prototype.trim\<close> removes the white space and line terminators of ECMAScript
  from both ends.
\<close>

definition isWhiteSpace :: "nat \<Rightarrow> bool" where
  "isWhiteSpace x =
     (x = 9 \<or> x = 10 \<or> x = 11 \<or> x = 12 \<or> x = 13 \<or> x = 32 \<or> x = 160 \<or> x = 5760
      \<or> (8192 \<le> x \<and> x \<le> 8202) \<or> x = 8232 \<or> x = 8233 \<or> x = 8239 \<or> x = 8287
      \<or> x = 12288 \<or> x = 65279)"

definition trim :: "jsstring \<Rightarrow> jsstring" where
  "trim s = rev (dropWhile isWhiteSpace (rev (dropWhile isWhiteSpace s)))"

text \<open>
  \<open>Date.now().toString()\<close>: the clock reading is an integer number of milliseconds, far
  below the size at which a number prints with an exponent, so the string is its decimal
  numeral.
\<close>

function digits :: "nat \<Rightarrow> jsstring" where
  "digits n = (if n < 10 then [48 + n] else digits (n div 10) @ [48 + n mod 10])"
  by pat_completeness auto
termination
  by (relation "measure (\<lambda>n. n)") auto

declare digits.simps [simp del]

definition toString :: "int \<Rightarrow> jsstring" where
  "toString i = (if i < 0 then 45 # digits (nat (- i)) else digits (nat i))"

section \<open>The overlay list and the selection\<close>

definition setYoutubeUrl :: "jsstring \<Rightarrow> AppState \<Rightarrow> AppState" where
  "setYoutubeUrl v s = s\<lparr>youtubeUrl := v\<rparr>"

definition setAiPrompt :: "jsstring \<Rightarrow> AppState \<Rightarrow> AppState" where
  "setAiPrompt v s = s\<lparr>aiPrompt := v\<rparr>"

definition setNewText :: "jsstring \<Rightarrow> AppState \<Rightarrow> AppState" where
  "setNewText v s = s\<lparr>newText := v\<rparr>"

definition handleReset :: "AppState \<Rightarrow> AppState" where
  "handleReset s =
     s\<lparr>adjustments := DEFAULT_ADJUSTMENTS, textOverlays := [], selectedTextId := None\<rparr>"

datatype AdjustmentKey = Brightness | Contrast | Saturation | Grayscale | Sepia | Blur

fun setAdjustment :: "AdjustmentKey \<Rightarrow> number \<Rightarrow> AdjustmentSettings \<Rightarrow> AdjustmentSettings" where
  "setAdjustment Brightness v a = a\<lparr>brightness := v\<rparr>"
| "setAdjustment Contrast v a = a\<lparr>contrast := v\<rparr>"
| "setAdjustment Saturation v a = a\<lparr>saturation := v\<rparr>"
| "setAdjustment Grayscale v a = a\<lparr>grayscale := v\<rparr>"
| "setAdjustment Sepia v a = a\<lparr>sepia := v\<rparr>"
| "setAdjustment Blur v a = a\<lparr>blur := v\<rparr>"

definition handleAdjustmentChange :: "AdjustmentKey \<Rightarrow> number \<Rightarrow> AppState \<Rightarrow> AppState" where
  "handleAdjustmentChange key v s = s\<lparr>adjustments := setAdjustment key v (adjustments s)\<rparr>"

text \<open>\<open>handleAddText\<close>; \<open>now\<close> is the value \<open>Date.now()\<close> returns during the call.\<close>

definition newOverlay :: "jsstring \<Rightarrow> jsstring \<Rightarrow> TextOverlay" where
  "newOverlay newId txt =
     \<lparr>ov_id = newId, ov_text = txt, ov_x = 50, ov_y = 50, color = js ''#00ff00'',
      fontSize = 48, fontFamily = js ''Share Tech Mono''\<rparr>"

definition handleAddText :: "int \<Rightarrow> AppState \<Rightarrow> AppState" where
  "handleAddText now s =
     (if trim (newText s) = [] then s
      else let newId = toString now in
        s\<lparr>textOverlays := textOverlays s @ [newOverlay newId (newText s)],
          newText := [],
          selectedTextId := Some newId\<rparr>)"

text \<open>
  A sequence of add operations: for each, the user enters a text and presses ADD, and the
  clock shows \<open>now\<close> during the call.
\<close>

fun addAll :: "(int \<times> jsstring) list \<Rightarrow> AppState \<Rightarrow> AppState" where
  "addAll [] s = s"
| "addAll ((now, t) # rest) s = addAll rest (handleAddText now (setNewText t s))"

text \<open>
  \<open>updateSelectedText\<close> is called with the keys \<open>fontFamily\<close>, \<open>fontSize\<close> and \<open>color\<close>.
\<close>

datatype OverlayField = FontFamily jsstring | FontSize number | Color jsstring

fun setField :: "OverlayField \<Rightarrow> TextOverlay \<Rightarrow> TextOverlay" where
  "setField (FontFamily v) t = t\<lparr>fontFamily := v\<rparr>"
| "setField (FontSize v) t = t\<lparr>fontSize := v\<rparr>"
| "setField (Color v) t = t\<lparr>color := v\<rparr>"

definition updateSelectedText :: "OverlayField \<Rightarrow> AppState \<Rightarrow> AppState" where
  "updateSelectedText kv s =
     (if falsy (selectedTextId s) then s
      else s\<lparr>textOverlays :=
             map (\<lambda>t. if Some (ov_id t) = selectedTextId s then setField kv t else t)
               (textOverlays s)\<rparr>)"

text \<open>
  The row of an overlay in the list: a click on the row selects it, a click on its
  \<open>[X]\<close> button filters it out of the list.
\<close>

definition selectOverlay :: "jsstring \<Rightarrow> AppState \<Rightarrow> AppState" where
  "selectOverlay tid s = s\<lparr>selectedTextId := Some tid\<rparr>"

definition deleteOverlay :: "jsstring \<Rightarrow> AppState \<Rightarrow> AppState" where
  "deleteOverlay tid s = s\<lparr>textOverlays := filter (\<lambda>p. ov_id p \<noteq> tid) (textOverlays s)\<rparr>"

text \<open>The selection names an overlay of the list, or is empty.\<close>

definition selectionValid :: "AppState \<Rightarrow> bool" where
  "selectionValid s =
     (case selectedTextId s of
        None \<Rightarrow> True
      | Some i \<Rightarrow> i \<in> set (map ov_id (textOverlays s)))"


section \<open>The canvas: coordinates, hit test and drag\<close>

text \<open>
  The preview canvas element as the mouse handlers read it: its bitmap size and its
  bounding client rectangle. A mouse event carries its client coordinates.
\<close>

record CanvasEl =
  cwidth :: nat
  cheight :: nat
  rectLeft :: number
  rectTop :: number
  rectWidth :: number
  rectHeight :: number

record MouseEvent =
  clientX :: number
  clientY :: number

definition getCanvasCoordinates :: "CanvasEl \<Rightarrow> MouseEvent \<Rightarrow> number \<times> number" where
  "getCanvasCoordinates canvas e =
     (let scaleX = real (cwidth canvas) / rectWidth canvas;
          scaleY = real (cheight canvas) / rectHeight canvas
      in ((clientX e - rectLeft canvas) * scaleX, (clientY e - rectTop canvas) * scaleY))"

text \<open>
  A font string is a template literal; it is kept as the list of its pieces, so that no
  printing of a number has to be modelled. \<open>ctx.measureText(text).width\<close> depends on the
  font last assigned to the context and on the text, and is a parameter \<open>measureWidth\<close>
  of the functions that call it.
\<close>

datatype piece = Lit string | Num number | Str jsstring

type_synonym template = "piece list"

type_synonym measureText = "template \<Rightarrow> jsstring \<Rightarrow> number"

definition hitFont :: "number \<Rightarrow> jsstring \<Rightarrow> template" where
  \<comment> \<open>\<^verbatim>\<open>`bold ${fontSizePx}px "${overlay.fontFamily}"`\<close>\<close>
  "hitFont fontSizePx family =
     [Lit ''bold '', Num fontSizePx, Lit (''px '' @ [CHR 0x22]), Str family, Lit [CHR 0x22]]"

record Box =
  boxLeft :: number
  boxRight :: number
  boxTop :: number
  boxBottom :: number

definition hitBox :: "measureText \<Rightarrow> CanvasEl \<Rightarrow> TextOverlay \<Rightarrow> Box" where
  "hitBox measureWidth canvas overlay =
     (let fontSizePx = fontSize overlay * (real (cwidth canvas) / 1000);
          textWidth = measureWidth (hitFont fontSizePx (fontFamily overlay)) (ov_text overlay);
          textHeight = fontSizePx;
          textX = (ov_x overlay / 100) * real (cwidth canvas);
          textY = (ov_y overlay / 100) * real (cheight canvas)
      in \<lparr>boxLeft = textX - textWidth / 2, boxRight = textX + textWidth / 2,
          boxTop = textY - textHeight / 2, boxBottom = textY + textHeight / 2\<rparr>)"

definition inBox :: "Box \<Rightarrow> number \<times> number \<Rightarrow> bool" where
  "inBox b p =
     (fst p \<ge> boxLeft b \<and> fst p \<le> boxRight b \<and> snd p \<ge> boxTop b \<and> snd p \<le> boxBottom b)"

text \<open>
  The loop \<^verbatim>\<open>for (let i = textOverlays.length - 1; i >= 0; i--)\<close> of
  \<open>handleCanvasMouseDown\<close>: \<open>hitLoop hit ovs n\<close> is the loop with \<open>i = n - 1\<close> next, and
  it returns the index at which the loop body returns, or \<open>None\<close> when the loop runs out.
\<close>

fun hitLoop :: "(TextOverlay \<Rightarrow> bool) \<Rightarrow> TextOverlay list \<Rightarrow> nat \<Rightarrow> nat option" where
  "hitLoop hit ovs 0 = None"
| "hitLoop hit ovs (Suc i) = (if hit (ovs ! i) then Some i else hitLoop hit ovs i)"

definition hitTest ::
  "measureText \<Rightarrow> CanvasEl \<Rightarrow> TextOverlay list \<Rightarrow> number \<times> number \<Rightarrow> nat option" where
  "hitTest measureWidth canvas ovs p =
     hitLoop (\<lambda>overlay. inBox (hitBox measureWidth canvas overlay) p) ovs (length ovs)"

text \<open>
  The mouse handlers are attached to the preview canvas, so \<open>canvasRef.current\<close> is the
  element \<open>canvas\<close> that received the event, and its 2D context exists.
\<close>

definition handleCanvasMouseDown ::
  "measureText \<Rightarrow> CanvasEl \<Rightarrow> MouseEvent \<Rightarrow> AppState \<Rightarrow> AppState" where
  "handleCanvasMouseDown measureWidth canvas e s =
     (if falsy (currentImage s) then s
      else let p = getCanvasCoordinates canvas e in
        case hitTest measureWidth canvas (textOverlays s) p of
          Some i \<Rightarrow>
            (let overlay = textOverlays s ! i;
                 textX = (ov_x overlay / 100) * real (cwidth canvas);
                 textY = (ov_y overlay / 100) * real (cheight canvas)
             in s\<lparr>selectedTextId := Some (ov_id overlay),
                  isDragging := True,
                  dragOffset := (fst p - textX, snd p - textY)\<rparr>)
        | None \<Rightarrow> s\<lparr>selectedTextId := None\<rparr>)"

definition handleCanvasMouseMove :: "CanvasEl \<Rightarrow> MouseEvent \<Rightarrow> AppState \<Rightarrow> AppState" where
  "handleCanvasMouseMove canvas e s =
     (if \<not> isDragging s \<or> falsy (selectedTextId s) then s
      else let p = getCanvasCoordinates canvas e;
               newX = ((fst p - fst (dragOffset s)) / real (cwidth canvas)) * 100;
               newY = ((snd p - snd (dragOffset s)) / real (cheight canvas)) * 100
           in s\<lparr>textOverlays :=
                  map (\<lambda>t. if Some (ov_id t) = selectedTextId s then t\<lparr>ov_x := newX, ov_y := newY\<rparr>
                           else t)
                    (textOverlays s)\<rparr>)"

definition handleCanvasMouseUp :: "AppState \<Rightarrow> AppState" where
  "handleCanvasMouseUp s = s\<lparr>isDragging := False\<rparr>"

text \<open>The pixel position an overlay is anchored at on a canvas of the given size.\<close>

definition anchor :: "CanvasEl \<Rightarrow> TextOverlay \<Rightarrow> number \<times> number" where
  "anchor canvas overlay =
     ((ov_x overlay / 100) * real (cwidth canvas), (ov_y overlay / 100) * real (cheight canvas))"

section \<open>Rendering\<close>

text \<open>
  \<open>drawToCanvas\<close> is modelled by the sequence of operations it performs on the canvas and
  its 2D context once the image has loaded. The pixels of the canvas are what the browser
  makes of that sequence, starting from the cleared state that the assignment to
  \<open>canvas.width\<close> leaves. The two canvases of the component are the preview canvas
  (\<open>canvasRef\<close>) and the hidden one used for export (\<open>hiddenCanvasRef\<close>).
\<close>

datatype surface = PreviewCanvas | HiddenCanvas

record Image =
  src :: jsstring
  naturalWidth :: nat
  naturalHeight :: nat

datatype cmd =
    SetWidth nat
  | SetHeight nat
  | SetFilter template
  | DrawImage jsstring number number
  | SetFillStyle jsstring
  | SetFont template
  | SetTextAlign string
  | SetTextBaseline string
  | SetShadowColor string
  | SetShadowBlur number
  | SetShadowOffsetX number
  | SetShadowOffsetY number
  | FillText jsstring number number
  | SetStrokeStyle string
  | SetLineWidth number
  | SetLineDash "number list"
  | StrokeRect number number number number

definition filterString :: "AdjustmentSettings \<Rightarrow> template" where
  "filterString adjs =
     [Lit ''brightness('', Num (brightness adjs), Lit ''%) contrast('', Num (contrast adjs),
      Lit ''%) saturate('', Num (saturation adjs), Lit ''%) grayscale('', Num (grayscale adjs),
      Lit ''%) sepia('', Num (sepia adjs), Lit ''%) blur('', Num (blur adjs), Lit ''px)'']"

definition drawFont :: "number \<Rightarrow> jsstring \<Rightarrow> template" where
  \<comment> \<open>\<^verbatim>\<open>`bold ${fontSizePx}px "${overlay.fontFamily}", monospace`\<close>\<close>
  "drawFont fontSizePx family =
     [Lit ''bold '', Num fontSizePx, Lit (''px '' @ [CHR 0x22]), Str family,
      Lit ([CHR 0x22] @ '', monospace'')]"

text \<open>
  The rectangle of the selection outline, as the arguments \<open>(x, y, w, h)\<close> of
  \<open>strokeRect\<close>, on a canvas \<open>w\<close> wide and \<open>h\<close> high.
\<close>

definition selectionRect ::
  "measureText \<Rightarrow> nat \<Rightarrow> nat \<Rightarrow> TextOverlay \<Rightarrow> number \<times> number \<times> number \<times> number" where
  "selectionRect measureWidth w h overlay =
     (let fontSizePx = fontSize overlay * (real w / 1000);
          xPos = (ov_x overlay / 100) * real w;
          yPos = (ov_y overlay / 100) * real h;
          width = measureWidth (drawFont fontSizePx (fontFamily overlay)) (ov_text overlay) + 20;
          height = fontSizePx + 20
      in (xPos - width / 2, yPos - height / 2, width, height))"

definition drawOverlay ::
  "measureText \<Rightarrow> surface \<Rightarrow> nat \<Rightarrow> nat \<Rightarrow> jsstring option \<Rightarrow> TextOverlay \<Rightarrow> cmd list" where
  "drawOverlay measureWidth canvas w h selectionId overlay =
     (let fontSizePx = fontSize overlay * (real w / 1000);
          xPos = (ov_x overlay / 100) * real w;
          yPos = (ov_y overlay / 100) * real h
      in [SetFillStyle (color overlay),
          SetFont (drawFont fontSizePx (fontFamily overlay)),
          SetTextAlign ''center'',
          SetTextBaseline ''middle'',
          SetShadowColor ''rgba(0,0,0,1)'',
          SetShadowBlur 0,
          SetShadowOffsetX 4,
          SetShadowOffsetY 4,
          FillText (ov_text overlay) xPos yPos]
         @ (if selectionId = Some (ov_id overlay) \<and> canvas = PreviewCanvas
            then (case selectionRect measureWidth w h overlay of
                    (rx, ry, rw, rh) \<Rightarrow>
                      [SetStrokeStyle ''#00ff00'',
                       SetLineWidth 2,
                       SetLineDash [5, 5],
                       StrokeRect rx ry rw rh,
                       SetLineDash []])
            else []))"

definition drawToCanvas ::
  "measureText \<Rightarrow> surface \<Rightarrow> Image \<Rightarrow> AdjustmentSettings \<Rightarrow> TextOverlay list \<Rightarrow>
     jsstring option \<Rightarrow> cmd list" where
  "drawToCanvas measureWidth canvas img adjs overlays selectionId =
     [SetWidth (naturalWidth img),
      SetHeight (naturalHeight img),
      SetFilter (filterString adjs),
      DrawImage (src img) 0 0,
      SetFilter [Lit ''none'']]
     @ concat (map (drawOverlay measureWidth canvas (naturalWidth img) (naturalHeight img) selectionId)
                 overlays)"


section \<open>Long-running operations and their buttons\<close>

text \<open>
  An asynchronous handler runs up to its first \<open>await\<close> when it is called and resumes when
  the awaited result arrives. It is modelled by two functions: the handler itself, which
  returns the new state and the operation it has started (\<open>None\<close> when it returned
  early), and its \<open>_resume\<close> function, applied to the state the component has when the
  result arrives. A started operation carries the values the closure captured.
  The hidden canvas is rendered unconditionally, so \<open>hiddenCanvasRef.current\<close> is set
  whenever a handler runs.
\<close>

datatype pending =
    FetchThumbnail jsstring
  | DrawForExport jsstring AdjustmentSettings "TextOverlay list"
  | DrawForEdit jsstring AdjustmentSettings "TextOverlay list" jsstring

definition handleFetchYouTube :: "AppState \<Rightarrow> error + AppState \<times> pending option" where
  "handleFetchYouTube s =
     (case getYouTubeID (youtubeUrl s) of
        Inl e \<Rightarrow> Inl e
      | Inr None \<Rightarrow> Inr (s\<lparr>errorMsg := Some (js ''INVALID TARGET URL'')\<rparr>, None)
      | Inr (Some i) \<Rightarrow>
          if i = [] then Inr (s\<lparr>errorMsg := Some (js ''INVALID TARGET URL'')\<rparr>, None)
          else Inr (s\<lparr>errorMsg := None, isProcessing := True\<rparr>,
                    Some (FetchThumbnail
                      (js ''https://img.youtube.com/vi/'' @ i @ js ''/maxresdefault.jpg''))))"

text \<open>
  The fetch settles with the object URL of the image, or fails (the request throws or the
  response is not ok).
\<close>

definition handleFetchYouTube_resume :: "jsstring option \<Rightarrow> AppState \<Rightarrow> AppState" where
  "handleFetchYouTube_resume result s =
     (case result of
        Some objectUrl \<Rightarrow>
          s\<lparr>currentImage := Some objectUrl, adjustments := DEFAULT_ADJUSTMENTS,
            textOverlays := [], selectedTextId := None, isProcessing := False\<rparr>
      | None \<Rightarrow>
          s\<lparr>errorMsg := Some (js ''CONNECTION FAILED (Check URL or network)''),
            isProcessing := False\<rparr>)"

definition handleDownload :: "AppState \<Rightarrow> AppState \<times> pending option" where
  "handleDownload s =
     (case currentImage s of
        None \<Rightarrow> (s, None)
      | Some img \<Rightarrow>
          if img = [] then (s, None)
          else (s\<lparr>isProcessing := True\<rparr>,
                Some (DrawForExport img (adjustments s) (textOverlays s))))"

definition handleDownload_resume :: "AppState \<Rightarrow> AppState" where
  "handleDownload_resume s = s\<lparr>isProcessing := False\<rparr>"

definition handleGeminiEdit :: "AppState \<Rightarrow> AppState \<times> pending option" where
  "handleGeminiEdit s =
     (case currentImage s of
        None \<Rightarrow> (s, None)
      | Some img \<Rightarrow>
          if img = [] \<or> trim (aiPrompt s) = [] then (s, None)
          else (s\<lparr>isProcessing := True, errorMsg := None\<rparr>,
                Some (DrawForEdit img (adjustments s) (textOverlays s) (aiPrompt s))))"

text \<open>
  The edit settles with the new image (\<open>Inr\<close>) or throws an error whose message may be
  missing (\<open>Inl\<close>).
\<close>

definition handleGeminiEdit_resume :: "jsstring option + jsstring \<Rightarrow> AppState \<Rightarrow> AppState" where
  "handleGeminiEdit_resume result s =
     (case result of
        Inr newImageBase64 \<Rightarrow>
          s\<lparr>currentImage := Some newImageBase64, adjustments := DEFAULT_ADJUSTMENTS,
            textOverlays := [], aiPrompt := [], isProcessing := False\<rparr>
      | Inl message \<Rightarrow>
          s\<lparr>errorMsg := Some (if falsy message then js ''AI PROTOCOL FAILED''
                               else case message of Some m \<Rightarrow> m | None \<Rightarrow> []),
            isProcessing := False\<rparr>)"

text \<open>
  What a started drawing operation puts on the hidden canvas once the image \<open>img\<close> of its
  source has loaded, and what the redraw effect puts on the preview canvas.
\<close>

fun pendingDraw :: "measureText \<Rightarrow> nat \<Rightarrow> nat \<Rightarrow> pending \<Rightarrow> cmd list" where
  "pendingDraw measureWidth w h (FetchThumbnail url) = []"
| "pendingDraw measureWidth w h (DrawForExport imgSrc adjs overlays) =
     drawToCanvas measureWidth HiddenCanvas
       \<lparr>src = imgSrc, naturalWidth = w, naturalHeight = h\<rparr> adjs overlays None"
| "pendingDraw measureWidth w h (DrawForEdit imgSrc adjs overlays prompt) =
     drawToCanvas measureWidth HiddenCanvas
       \<lparr>src = imgSrc, naturalWidth = w, naturalHeight = h\<rparr> adjs overlays None"

definition redraw :: "measureText \<Rightarrow> nat \<Rightarrow> nat \<Rightarrow> AppState \<Rightarrow> cmd list" where
  "redraw measureWidth w h s =
     (case currentImage s of
        None \<Rightarrow> []
      | Some img \<Rightarrow>
          if img = [] then []
          else drawToCanvas measureWidth PreviewCanvas
                 \<lparr>src = img, naturalWidth = w, naturalHeight = h\<rparr>
                 (adjustments s) (textOverlays s) (selectedTextId s))"

text \<open>
  The three buttons that start a long-running operation. A button whose \<open>disabled\<close>
  attribute is true does not call its \<open>onClick\<close> handler:
  EXECUTE has \<open>disabled={isProcessing}\<close>,
  EXPORT has \<open>disabled={!currentImage || isProcessing}\<close>,
  COMPILE_EDIT has \<open>disabled={!currentImage || isProcessing || !aiPrompt}\<close>.
\<close>

definition clickExecute :: "AppState \<Rightarrow> error + AppState \<times> pending option" where
  "clickExecute s = (if isProcessing s then Inr (s, None) else handleFetchYouTube s)"

definition clickExport :: "AppState \<Rightarrow> AppState \<times> pending option" where
  "clickExport s =
     (if falsy (currentImage s) \<or> isProcessing s then (s, None) else handleDownload s)"

definition clickCompileEdit :: "AppState \<Rightarrow> AppState \<times> pending option" where
  "clickCompileEdit s =
     (if falsy (currentImage s) \<or> isProcessing s \<or> aiPrompt s = [] then (s, None)
      else handleGeminiEdit s)"


section \<open>Box geometry and example inputs\<close>

text \<open>Width, height and centre of the hit-test box and of a stroked rectangle.\<close>

definition boxWidth :: "Box \<Rightarrow> number" where
  "boxWidth b = boxRight b - boxLeft b"

definition boxHeight :: "Box \<Rightarrow> number" where
  "boxHeight b = boxBottom b - boxTop b"

definition boxCenter :: "Box \<Rightarrow> number \<times> number" where
  "boxCenter b = ((boxLeft b + boxRight b) / 2, (boxTop b + boxBottom b) / 2)"

fun rectW :: "number \<times> number \<times> number \<times> number \<Rightarrow> number" where
  "rectW (rx, ry, rw, rh) = rw"

fun rectH :: "number \<times> number \<times> number \<times> number \<Rightarrow> number" where
  "rectH (rx, ry, rw, rh) = rh"

fun rectCenter :: "number \<times> number \<times> number \<times> number \<Rightarrow> number \<times> number" where
  "rectCenter (rx, ry, rw, rh) = (rx + rw / 2, ry + rh / 2)"

text \<open>
  Inputs for the concrete runs below: a text measure of a fixed-pitch font (each code unit
  is 0.6 of the font size wide), a 1000 by 500 canvas shown at half its size, two
  overlays at the centre, a session that holds them over a loaded image, and a mouse-down
  at the canvas point (510, 254), off the anchor of both overlays and inside both boxes,
  with a mouse-move to (530, 264).
\<close>

definition exMeasure :: measureText where
  "exMeasure f t = (case f of Lit a # Num px # rest \<Rightarrow> 0.6 * px * real (length t) | _ \<Rightarrow> 0)"

definition exCanvas :: CanvasEl where
  "exCanvas =
     \<lparr>cwidth = 1000, cheight = 500, rectLeft = 10, rectTop = 20, rectWidth = 500,
      rectHeight = 250\<rparr>"

definition exA :: TextOverlay where
  "exA = newOverlay (js ''1'') (js ''AAAA'')"

definition exB :: TextOverlay where
  "exB = newOverlay (js ''2'') (js ''BB'')"

definition exState :: AppState where
  "exState = initialState\<lparr>currentImage := Some (js ''blob:thumb''), textOverlays := [exA, exB]\<rparr>"

definition exDown :: MouseEvent where
  "exDown = \<lparr>clientX = 265, clientY = 147\<rparr>"

definition exMove :: MouseEvent where
  "exMove = \<lparr>clientX = 275, clientY = 152\<rparr>"

definition exBusy :: AppState where
  "exBusy = exState\<lparr>aiPrompt := js ''more contrast'', isProcessing := True\<rparr>"

definition exSelected :: AppState where
  "exSelected =
     handleAddText 1700000000000
       (setNewText (js ''HELLO'') (initialState\<lparr>currentImage := Some (js ''blob:thumb'')\<rparr>))"

definition exTwoAdds :: AppState where
  "exTwoAdds =
     addAll [(1700000000000, js ''A''), (1700000000000, js ''B'')] initialState"

definition exImage :: Image where
  "exImage = \<lparr>src = js ''blob:thumb'', naturalWidth = 1000, naturalHeight = 500\<rparr>"

section \<open>The identifier extractor\<close>

text \<open>
  A successful run of the matcher ends in its continuation: whatever the pattern in front
  of it does, the result comes from a call of \<open>k\<close>.
\<close>

lemma star_through: "star p k s c = Some r \<Longrightarrow> \<exists>s' c'. k s' c' = Some r"
  by (induction s) (auto split: if_splits option.splits)

lemma matcher_through: "matcher a k s c = Some r \<Longrightarrow> \<exists>s' c'. k s' c' = Some r"
proof (induction a arbitrary: k s c)
  case (Atom p)
  then show ?case by (auto split: list.splits if_splits)
next
  case (Cat a b)
  from Cat.prems have "matcher a (matcher b k) s c = Some r" by simp
  from Cat.IH(1)[OF this] obtain s1 c1 where "matcher b k s1 c1 = Some r" by blast
  from Cat.IH(2)[OF this] show ?case .
next
  case (Alt a b)
  then show ?case by (auto split: option.splits)
next
  case (Opt a)
  then show ?case by (auto split: option.splits)
next
  case (StarA p)
  then show ?case by (auto dest: star_through)
next
  case (Grp n a)
  from Grp.prems
  have "matcher a (\<lambda>s' c'. k s' (c'(n := Some (take (length s - length s') s)))) s c = Some r"
    by simp
  from Grp.IH[OF this] show ?case by blast
qed auto

lemma star_same_captures: "star p (\<lambda>s c. Some c) s c = Some r \<Longrightarrow> r = c"
  by (induction s) (auto split: if_splits option.splits)

text \<open>
  Group 7 is not under a quantifier or an alternation, so every match defines it, and
  \<open>match[7].length\<close> never throws.
\<close>

lemma match_group7:
  assumes "match url = Some m"
  shows "\<exists>g. m 7 = Some g"
proof -
  let ?k0 = "\<lambda>(s::jsstring) (c::captures). Some c"
  from assms obtain a b where
    "matcher (Cat (Grp 7 (StarA notDelim)) (StarA dot)) ?k0 a b = Some m"
    unfolding match_def regExp_def
    apply (simp only: matcher.simps(3))
    apply (drule matcher_through, elim exE)
    apply (drule matcher_through, elim exE)
    apply (drule matcher_through, elim exE)
    apply (drule matcher_through, elim exE)
    apply (drule matcher_through, elim exE)
    apply blast
    done
  then have "matcher (StarA notDelim)
      (\<lambda>s' c'. star dot ?k0 s' (c'(7 := Some (take (length a - length s') a)))) a b = Some m"
    by simp
  from matcher_through[OF this] obtain s' c' where
    "star dot ?k0 s' (c'(7 := Some (take (length a - length s') a))) = Some m" by blast
  from star_same_captures[OF this] show ?thesis by simp
qed

lemma getYouTubeID_returns: "\<exists>r. getYouTubeID url = Inr r"
  using match_group7[of url] by (auto simp: getYouTubeID_def split: option.splits)

text \<open>
  C10. For every URL string, \<open>getYouTubeID\<close> returns (it does not throw), and what it
  returns is either null or a string of exactly 11 code units.
\<close>

theorem getYouTubeID_length:
  "getYouTubeID url = Inr None \<or> (\<exists>g. getYouTubeID url = Inr (Some g) \<and> length g = 11)"
  using match_group7[of url] by (auto simp: getYouTubeID_def split: option.splits)

theorem getYouTubeID_length_witness:
  "getYouTubeID (js ''https://youtu.be/dQw4w9WgXcQ?t=3'') = Inr (Some (js ''dQw4w9WgXcQ''))
   \<and> length (js ''dQw4w9WgXcQ'') = 11
   \<and> getYouTubeID (js ''https://www.youtube.com/watch?v=short'') = Inr None"
  using getYouTubeID_length[of "js ''https://youtu.be/dQw4w9WgXcQ?t=3''"]
  by (simp add: getYouTubeID_def match_def regExp_def js_def chr_def dot_def
        isLineTerminator_def notDelim_def wordChar_def)


section \<open>Evaluating the examples\<close>

lemmas ex_defs = exMeasure_def exCanvas_def exA_def exB_def exState_def exDown_def exMove_def
  exBusy_def exSelected_def exTwoAdds_def exImage_def initialState_def newOverlay_def js_def

lemmas box_defs = hitBox_def inBox_def hitFont_def boxWidth_def boxHeight_def boxCenter_def
  Let_def

lemma exSelected_eq:
  "exSelected =
     initialState\<lparr>currentImage := Some (js ''blob:thumb''),
       textOverlays := [newOverlay (js ''1700000000000'') (js ''HELLO'')],
       newText := [],
       selectedTextId := Some (js ''1700000000000'')\<rparr>"
  by (simp add: exSelected_def handleAddText_def setNewText_def trim_def isWhiteSpace_def
      toString_def digits.simps initialState_def js_def Let_def)

section \<open>The selection and the overlay list\<close>

text \<open>
  The operations that keep the selection on an overlay of the list: reset, a finished
  fetch, adding an overlay, the mouse handlers, an update of the selected overlay, and the
  deletion of an overlay that is not the selected one.
\<close>

lemma selectionValid_handleReset: "selectionValid (handleReset s)"
  by (simp add: selectionValid_def handleReset_def)

lemma selectionValid_fetch:
  "selectionValid s \<Longrightarrow> selectionValid (handleFetchYouTube_resume result s)"
  by (cases result)
    (auto simp: selectionValid_def handleFetchYouTube_resume_def split: option.splits)

lemma selectionValid_handleAddText: "selectionValid s \<Longrightarrow> selectionValid (handleAddText now s)"
  by (auto simp: selectionValid_def handleAddText_def newOverlay_def Let_def
      split: option.splits)

lemma hitLoop_bound: "hitLoop hit ovs n = Some i \<Longrightarrow> i < n"
  by (induction n) (auto split: if_splits)

lemma selectionValid_mouseDown:
  "selectionValid s \<Longrightarrow> selectionValid (handleCanvasMouseDown mw canvas e s)"
  by (auto simp: selectionValid_def handleCanvasMouseDown_def hitTest_def Let_def
      split: option.splits dest: hitLoop_bound)

lemma ov_id_moved:
  "map ov_id (map (\<lambda>t. if P t then t\<lparr>ov_x := a, ov_y := b\<rparr> else t) xs) = map ov_id xs"
  by (induction xs) auto

lemma mouseMove_ids:
  "selectedTextId (handleCanvasMouseMove canvas e s) = selectedTextId s"
  "map ov_id (textOverlays (handleCanvasMouseMove canvas e s)) = map ov_id (textOverlays s)"
  by (simp_all add: handleCanvasMouseMove_def Let_def ov_id_moved del: map_map)

lemma selectionValid_mouseMove:
  "selectionValid s \<Longrightarrow> selectionValid (handleCanvasMouseMove canvas e s)"
  by (simp only: selectionValid_def mouseMove_ids)

lemma ov_id_setField: "ov_id (setField kv t) = ov_id t"
  by (cases kv) simp_all

lemma ov_id_updated:
  "map ov_id (map (\<lambda>t. if P t then setField kv t else t) xs) = map ov_id xs"
  by (induction xs) (auto simp: ov_id_setField)

lemma updateSelectedText_ids:
  "selectedTextId (updateSelectedText kv s) = selectedTextId s"
  "map ov_id (textOverlays (updateSelectedText kv s)) = map ov_id (textOverlays s)"
  by (simp_all add: updateSelectedText_def ov_id_updated del: map_map)

lemma selectionValid_updateSelectedText:
  "selectionValid s \<Longrightarrow> selectionValid (updateSelectedText kv s)"
  by (simp only: selectionValid_def updateSelectedText_ids)

lemma selectionValid_deleteOther:
  "selectionValid s \<Longrightarrow> selectedTextId s \<noteq> Some tid \<Longrightarrow> selectionValid (deleteOverlay tid s)"
  by (auto simp: selectionValid_def deleteOverlay_def split: option.splits)

text \<open>
  The two operations that do not: deleting the selected overlay, and a finished AI edit
  while an overlay is selected. Both leave \<open>selectedTextId\<close> as it was.
\<close>

lemma deleteOverlay_selected:
  "selectedTextId s = Some tid \<Longrightarrow>
     selectedTextId (deleteOverlay tid s) = Some tid \<and> \<not> selectionValid (deleteOverlay tid s)"
  by (auto simp: selectionValid_def deleteOverlay_def)

lemma handleGeminiEdit_resume_selected:
  "selectedTextId s = Some tid \<Longrightarrow>
     selectedTextId (handleGeminiEdit_resume (Inr newImage) s) = Some tid \<and>
     textOverlays (handleGeminiEdit_resume (Inr newImage) s) = [] \<and>
     \<not> selectionValid (handleGeminiEdit_resume (Inr newImage) s)"
  by (simp add: selectionValid_def handleGeminiEdit_resume_def)

text \<open>
  C1. The selection is to be empty or the identifier of an overlay of the list after every
  operation, and empty once the selected overlay is removed. The code does not keep this:
  on a session whose one overlay is selected, the \<open>[X]\<close> button empties the list and
  keeps the selection, and so does a finished AI edit; the selection then names no overlay.
\<close>

theorem selection_dangles_after_delete_and_edit:
  "selectedTextId exSelected = Some (js ''1700000000000'')
   \<and> selectionValid exSelected
   \<and> textOverlays (deleteOverlay (js ''1700000000000'') exSelected) = []
   \<and> selectedTextId (deleteOverlay (js ''1700000000000'') exSelected)
       = Some (js ''1700000000000'')
   \<and> \<not> selectionValid (deleteOverlay (js ''1700000000000'') exSelected)
   \<and> textOverlays (handleGeminiEdit_resume (Inr (js ''data:image/png;base64,AAAA'')) exSelected)
       = []
   \<and> selectedTextId
        (handleGeminiEdit_resume (Inr (js ''data:image/png;base64,AAAA'')) exSelected)
       = Some (js ''1700000000000'')
   \<and> \<not> selectionValid
        (handleGeminiEdit_resume (Inr (js ''data:image/png;base64,AAAA'')) exSelected)"
proof -
  have sel: "selectedTextId exSelected = Some (js ''1700000000000'')"
    by (simp add: exSelected_eq)
  have valid: "selectionValid exSelected"
    by (simp add: exSelected_eq selectionValid_def newOverlay_def)
  have del: "textOverlays (deleteOverlay (js ''1700000000000'') exSelected) = []"
    by (simp add: exSelected_eq deleteOverlay_def newOverlay_def)
  from sel valid del deleteOverlay_selected[OF sel] handleGeminiEdit_resume_selected[OF sel]
  show ?thesis by simp
qed

section \<open>Identifiers of added overlays\<close>

text \<open>
  An added overlay keeps the identifiers distinct as long as the clock reading prints to a
  string that no overlay of the list has as its identifier.
\<close>

lemma handleAddText_keeps_distinct:
  "distinct (map ov_id (textOverlays s)) \<Longrightarrow>
   toString now \<notin> set (map ov_id (textOverlays s)) \<Longrightarrow>
   distinct (map ov_id (textOverlays (handleAddText now s)))"
  by (simp add: handleAddText_def newOverlay_def Let_def)

lemma digits_not_Nil: "digits n \<noteq> []"
  by (subst digits.simps) simp

text \<open>Different clock readings print to different strings.\<close>

lemma digits_inj: "digits n = digits m \<Longrightarrow> n = m"
proof (induction n arbitrary: m rule: digits.induct)
  case (1 n)
  show ?case
  proof (cases "n < 10")
    case True
    with "1.prems" have a: "[48 + n] = digits m" by (subst (asm) digits.simps) simp
    show ?thesis
    proof (cases "m < 10")
      case True
      with a show ?thesis by (subst (asm) digits.simps) simp
    next
      case False
      with a have "[48 + n] = digits (m div 10) @ [48 + m mod 10]"
        by (subst (asm) digits.simps) simp
      then show ?thesis using digits_not_Nil[of "m div 10"] by (cases "digits (m div 10)") auto
    qed
  next
    case False
    with "1.prems" have a: "digits (n div 10) @ [48 + n mod 10] = digits m"
      by (subst (asm) digits.simps) simp
    show ?thesis
    proof (cases "m < 10")
      case True
      with a have "digits (n div 10) @ [48 + n mod 10] = [48 + m]"
        by (subst (asm) (2) digits.simps) simp
      then show ?thesis using digits_not_Nil[of "n div 10"] by (cases "digits (n div 10)") auto
    next
      case False
      with a have "digits (n div 10) @ [48 + n mod 10] = digits (m div 10) @ [48 + m mod 10]"
        by (subst (asm) (2) digits.simps) simp
      then have d: "digits (n div 10) = digits (m div 10)" and r: "n mod 10 = m mod 10"
        by simp_all
      from "1.IH"[OF \<open>\<not> n < 10\<close> d] have "n div 10 = m div 10" .
      with r show ?thesis by (metis div_mult_mod_eq)
    qed
  qed
qed

lemma digits_ge: "d \<in> set (digits n) \<Longrightarrow> 48 \<le> d"
proof (induction n rule: digits.induct)
  case (1 n)
  then show ?case by (subst (asm) (2) digits.simps) (auto split: if_splits)
qed

lemma toString_inj: "toString i = toString j \<longleftrightarrow> i = j"
proof
  assume eq: "toString i = toString j"
  have no45: "45 # xs \<noteq> digits n" for xs n
  proof
    assume "45 # xs = digits n"
    then have "45 \<in> set (digits n)" by (metis list.set_intros(1))
    from digits_ge[OF this] show False by simp
  qed
  show "i = j"
  proof (cases "i < 0"; cases "j < 0")
    assume "i < 0" "j < 0"
    with eq have "digits (nat (- i)) = digits (nat (- j))" by (simp add: toString_def)
    then have "nat (- i) = nat (- j)" by (rule digits_inj)
    with \<open>i < 0\<close> \<open>j < 0\<close> show ?thesis by simp
  next
    assume "i < 0" "\<not> j < 0"
    with eq no45 show ?thesis by (simp add: toString_def)
  next
    assume "\<not> i < 0" "j < 0"
    with eq no45[of "digits (nat (- j))" "nat i"] show ?thesis by (simp add: toString_def)
  next
    assume "\<not> i < 0" "\<not> j < 0"
    with eq have "digits (nat i) = digits (nat j)" by (simp add: toString_def)
    then have "nat i = nat j" by (rule digits_inj)
    with \<open>\<not> i < 0\<close> \<open>\<not> j < 0\<close> show ?thesis by simp
  qed
qed simp

lemma distinct_toString: "distinct ys \<Longrightarrow> distinct (map toString ys)"
  by (simp add: distinct_map inj_on_def toString_inj)

text \<open>
  The identifiers after a sequence of add operations are those before it, followed by the
  clock readings of the operations whose text is not blank. Started on the initial state
  at pairwise different clock readings, the sequence gives pairwise different identifiers.
\<close>

lemma addAll_ids:
  "map ov_id (textOverlays (addAll ops s)) =
     map ov_id (textOverlays s)
       @ map (toString \<circ> fst) (filter (\<lambda>op. trim (snd op) \<noteq> []) ops)"
proof (induction ops arbitrary: s)
  case Nil
  then show ?case by simp
next
  case (Cons a ops)
  obtain now t where a: "a = (now, t)" by (cases a)
  show ?case unfolding a
    by (simp add: Cons.IH handleAddText_def setNewText_def newOverlay_def Let_def)
qed

lemma addAll_distinct:
  assumes "distinct (map fst ops)"
  shows "distinct (map ov_id (textOverlays (addAll ops initialState)))"
proof -
  let ?kept = "filter (\<lambda>op. trim (snd op) \<noteq> []) ops"
  have "distinct (map fst ?kept)"
    using assms by (rule distinct_map_filter)
  then have "distinct (map toString (map fst ?kept))"
    by (rule distinct_toString)
  then show ?thesis by (simp add: addAll_ids initialState_def)
qed

lemma addAll_same_clock:
  "trim a \<noteq> [] \<Longrightarrow> trim b \<noteq> [] \<Longrightarrow>
   \<not> distinct (map ov_id (textOverlays (addAll [(now, a), (now, b)] s)))"
  by (simp add: addAll_ids del: addAll.simps)

text \<open>
  C5. The identifiers given out by a sequence of add operations are to be pairwise
  distinct. The code does not keep this: the identifier is the clock reading, and two
  overlays added at the same reading of \<open>Date.now()\<close> get the same identifier.
\<close>

theorem same_clock_same_id:
  "map ov_text (textOverlays exTwoAdds) = [js ''A'', js ''B'']
   \<and> map ov_id (textOverlays exTwoAdds) = [js ''1700000000000'', js ''1700000000000'']
   \<and> \<not> distinct (map ov_id (textOverlays exTwoAdds))"
proof (intro conjI)
  show "map ov_text (textOverlays exTwoAdds) = [js ''A'', js ''B'']"
    by (simp add: ex_defs handleAddText_def setNewText_def trim_def isWhiteSpace_def Let_def)
  show ids: "map ov_id (textOverlays exTwoAdds) = [js ''1700000000000'', js ''1700000000000'']"
    by (simp add: ex_defs handleAddText_def setNewText_def trim_def isWhiteSpace_def
        toString_def digits.simps Let_def)
  show "\<not> distinct (map ov_id (textOverlays exTwoAdds))"
    by (simp add: ids)
qed

section \<open>Adding an overlay\<close>

lemma dropWhile_all: "(\<forall>c\<in>set (dropWhile P t). P c) \<longleftrightarrow> (\<forall>c\<in>set t. P c)"
  by (induction t) auto

text \<open>A string trims to the empty string exactly when it holds white space only.\<close>

lemma trim_empty_iff: "trim t = [] \<longleftrightarrow> (\<forall>c\<in>set t. isWhiteSpace c)"
  by (simp add: trim_def dropWhile_eq_Nil_conv dropWhile_all)

text \<open>
  C8. When the entered text is empty or holds white space only, \<open>handleAddText\<close> leaves
  the whole state as it is. Otherwise it appends one overlay at (50, 50) with the colour
  \<open>#00ff00\<close>, the size 48 and the font Share Tech Mono, and selects it.
\<close>

theorem handleAddText_spec:
  "((\<forall>c\<in>set (newText s). isWhiteSpace c) \<longrightarrow> handleAddText now s = s)
   \<and> (\<not> (\<forall>c\<in>set (newText s). isWhiteSpace c) \<longrightarrow>
        textOverlays (handleAddText now s) =
          textOverlays s @
            [\<lparr>ov_id = toString now, ov_text = newText s, ov_x = 50, ov_y = 50,
              color = js ''#00ff00'', fontSize = 48, fontFamily = js ''Share Tech Mono''\<rparr>]
        \<and> selectedTextId (handleAddText now s) = Some (toString now))"
  using trim_empty_iff[of "newText s"]
  by (simp add: handleAddText_def newOverlay_def Let_def)

theorem handleAddText_spec_witness:
  "handleAddText 7 (setNewText (js ''   '') exState) = setNewText (js ''   '') exState
   \<and> handleAddText 7 (setNewText [] exState) = setNewText [] exState
   \<and> textOverlays (handleAddText 7 (setNewText (js ''Hi'') exState)) =
       [exA, exB, \<lparr>ov_id = js ''7'', ov_text = js ''Hi'', ov_x = 50, ov_y = 50,
              color = js ''#00ff00'', fontSize = 48, fontFamily = js ''Share Tech Mono''\<rparr>]
   \<and> selectedTextId (handleAddText 7 (setNewText (js ''Hi'') exState)) = Some (js ''7'')"
proof -
  have ws: "\<forall>c\<in>set (newText (setNewText (js ''   '') exState)). isWhiteSpace c"
    by (simp add: setNewText_def js_def isWhiteSpace_def)
  have em: "\<forall>c\<in>set (newText (setNewText [] exState)). isWhiteSpace c"
    by (simp add: setNewText_def)
  have hi: "\<not> (\<forall>c\<in>set (newText (setNewText (js ''Hi'') exState)). isWhiteSpace c)"
    by (simp add: setNewText_def js_def isWhiteSpace_def)
  have t7: "toString 7 = js ''7''"
    by (simp add: toString_def digits.simps js_def)
  have ovs: "textOverlays (setNewText (js ''Hi'') exState) = [exA, exB]"
    "newText (setNewText (js ''Hi'') exState) = js ''Hi''"
    by (simp_all add: setNewText_def exState_def)
  from handleAddText_spec[of "setNewText (js ''   '') exState" 7] ws
    handleAddText_spec[of "setNewText [] exState" 7] em
    handleAddText_spec[of "setNewText (js ''Hi'') exState" 7] hi
  show ?thesis by (simp add: t7 ovs)
qed

section \<open>The busy flag\<close>

text \<open>
  C3. While \<open>isProcessing\<close> is set, a click on any of the three buttons that start a
  long-running operation (EXECUTE, EXPORT, COMPILE_EDIT) changes no field of the state and
  starts nothing: the attempt is dropped, not queued.
\<close>

theorem busy_rejects:
  "isProcessing s \<Longrightarrow>
     clickExecute s = Inr (s, None) \<and> clickExport s = (s, None) \<and> clickCompileEdit s = (s, None)"
  by (simp add: clickExecute_def clickExport_def clickCompileEdit_def)

theorem busy_rejects_witness:
  "isProcessing exBusy \<and> \<not> falsy (currentImage exBusy) \<and> aiPrompt exBusy \<noteq> []
   \<and> clickExecute exBusy = Inr (exBusy, None)
   \<and> clickExport exBusy = (exBusy, None)
   \<and> clickCompileEdit exBusy = (exBusy, None)"
proof -
  have busy: "isProcessing exBusy"
    by (simp add: exBusy_def)
  have rest: "\<not> falsy (currentImage exBusy)" "aiPrompt exBusy \<noteq> []"
    by (simp_all add: exBusy_def exState_def falsy_def js_def)
  from busy_rejects[OF busy] busy rest show ?thesis by simp
qed

text \<open>The same click on the same session once it is idle again starts the export.\<close>

lemma idle_export_starts:
  "clickExport (handleDownload_resume exBusy) =
     (exBusy, Some (DrawForExport (js ''blob:thumb'') DEFAULT_ADJUSTMENTS [exA, exB]))"
  by (simp add: clickExport_def handleDownload_def handleDownload_resume_def exBusy_def
      exState_def initialState_def falsy_def js_def)

text \<open>
  The gate is the \<open>disabled\<close> attribute of the buttons. The handlers do not test the flag:
  called on a busy session that has an image, \<open>handleDownload\<close> starts an export.
\<close>

lemma handleDownload_unguarded:
  "handleDownload exBusy =
     (exBusy, Some (DrawForExport (js ''blob:thumb'') DEFAULT_ADJUSTMENTS [exA, exB]))"
  by (simp add: handleDownload_def exBusy_def exState_def initialState_def js_def)

section \<open>Preview and export\<close>

lemma drawOverlay_unselected:
  "drawOverlay mw PreviewCanvas w h None = drawOverlay mw HiddenCanvas w h None"
  by (rule ext) (simp add: drawOverlay_def)

text \<open>
  C2. With no selection passed, \<open>drawToCanvas\<close> performs the same sequence of canvas
  operations on the preview canvas and on the hidden export canvas, for every image,
  adjustment settings and overlay list; the pixels are what the browser makes of that
  sequence, so they are the same as well.
\<close>

theorem render_parity:
  "drawToCanvas mw PreviewCanvas img adjs overlays None =
   drawToCanvas mw HiddenCanvas img adjs overlays None"
  by (simp add: drawToCanvas_def drawOverlay_unselected)

theorem render_parity_witness:
  "drawToCanvas exMeasure PreviewCanvas exImage DEFAULT_ADJUSTMENTS [exA, exB] None =
   drawToCanvas exMeasure HiddenCanvas exImage DEFAULT_ADJUSTMENTS [exA, exB] None
   \<and> drawToCanvas exMeasure PreviewCanvas exImage DEFAULT_ADJUSTMENTS [exA, exB]
       (Some (js ''2'')) \<noteq>
     drawToCanvas exMeasure HiddenCanvas exImage DEFAULT_ADJUSTMENTS [exA, exB]
       (Some (js ''2''))"
proof -
  have "drawToCanvas exMeasure PreviewCanvas exImage DEFAULT_ADJUSTMENTS [exA, exB]
       (Some (js ''2'')) \<noteq>
     drawToCanvas exMeasure HiddenCanvas exImage DEFAULT_ADJUSTMENTS [exA, exB]
       (Some (js ''2''))"
    by (simp add: drawToCanvas_def drawOverlay_def exA_def exB_def newOverlay_def js_def Let_def
        split: prod.splits)
  with render_parity[of exMeasure exImage DEFAULT_ADJUSTMENTS "[exA, exB]"]
  show ?thesis by simp
qed

text \<open>
  What an export draws on the hidden canvas is what the redraw effect draws on the
  preview canvas of the same session, as long as nothing is selected.
\<close>

lemma export_matches_preview:
  "selectedTextId s = None \<Longrightarrow> handleDownload s = (s', Some job) \<Longrightarrow>
   pendingDraw mw w h job = redraw mw w h s"
  by (auto simp: handleDownload_def redraw_def drawToCanvas_def drawOverlay_unselected
      split: option.splits if_splits)

text \<open>
  The adjustments reach the canvas as the filter string only; how the browser turns that
  string into pixels is outside the component. The string determines the six values.
\<close>

lemma filterString_inj: "filterString a = filterString b \<longleftrightarrow> a = b"
  by (cases a, cases b) (auto simp: filterString_def)


section \<open>The hit test\<close>

lemma hitLoop_Some:
  "hitLoop hit ovs n = Some i \<longleftrightarrow>
     i < n \<and> hit (ovs ! i) \<and> (\<forall>j. i < j \<and> j < n \<longrightarrow> \<not> hit (ovs ! j))"
proof (induction n)
  case 0
  then show ?case by simp
next
  case (Suc n)
  show ?case
  proof (cases "hit (ovs ! n)")
    case True
    have "i = n \<longleftrightarrow>
        i < Suc n \<and> hit (ovs ! i) \<and> (\<forall>j. i < j \<and> j < Suc n \<longrightarrow> \<not> hit (ovs ! j))"
      using True by (metis less_Suc_eq less_irrefl not_less_eq)
    with True show ?thesis by auto
  next
    case False
    have "(i < n \<and> hit (ovs ! i) \<and> (\<forall>j. i < j \<and> j < n \<longrightarrow> \<not> hit (ovs ! j))) \<longleftrightarrow>
          (i < Suc n \<and> hit (ovs ! i) \<and> (\<forall>j. i < j \<and> j < Suc n \<longrightarrow> \<not> hit (ovs ! j)))"
      using False by (metis less_Suc_eq)
    with False Suc.IH show ?thesis by simp
  qed
qed

lemma hitLoop_None: "hitLoop hit ovs n = None \<longleftrightarrow> (\<forall>j<n. \<not> hit (ovs ! j))"
  by (induction n) (auto simp: less_Suc_eq)

text \<open>
  C6. For every overlay list and every point, the hit test returns the index of the last
  overlay of the list (the topmost one) whose box contains the point, and nothing exactly
  when no box contains it; for a list \<open>[A, B]\<close> and a point inside both boxes it
  returns \<open>B\<close>.
\<close>

theorem hitTest_topmost:
  "(hitTest mw canvas ovs p = Some i \<longleftrightarrow>
      i < length ovs \<and> inBox (hitBox mw canvas (ovs ! i)) p \<and>
      (\<forall>j. i < j \<and> j < length ovs \<longrightarrow> \<not> inBox (hitBox mw canvas (ovs ! j)) p))
   \<and> (hitTest mw canvas ovs p = None \<longleftrightarrow>
      (\<forall>j<length ovs. \<not> inBox (hitBox mw canvas (ovs ! j)) p))
   \<and> (inBox (hitBox mw canvas A) p \<and> inBox (hitBox mw canvas B) p \<longrightarrow>
      hitTest mw canvas [A, B] p = Some 1 \<and> [A, B] ! 1 = B)"
proof (intro conjI)
  show "hitTest mw canvas ovs p = Some i \<longleftrightarrow>
      i < length ovs \<and> inBox (hitBox mw canvas (ovs ! i)) p \<and>
      (\<forall>j. i < j \<and> j < length ovs \<longrightarrow> \<not> inBox (hitBox mw canvas (ovs ! j)) p)"
    unfolding hitTest_def by (rule hitLoop_Some)
  show "hitTest mw canvas ovs p = None \<longleftrightarrow>
      (\<forall>j<length ovs. \<not> inBox (hitBox mw canvas (ovs ! j)) p)"
    unfolding hitTest_def by (rule hitLoop_None)
  show "inBox (hitBox mw canvas A) p \<and> inBox (hitBox mw canvas B) p \<longrightarrow>
      hitTest mw canvas [A, B] p = Some 1 \<and> [A, B] ! 1 = B"
    by (simp add: hitTest_def numeral_2_eq_2)
qed

theorem hitTest_topmost_witness:
  "inBox (hitBox exMeasure exCanvas exA) (500, 250)
   \<and> inBox (hitBox exMeasure exCanvas exB) (500, 250)
   \<and> hitTest exMeasure exCanvas [exA, exB] (500, 250) = Some 1
   \<and> hitTest exMeasure exCanvas [exA, exB] (450, 250) = Some 0
   \<and> hitTest exMeasure exCanvas [exA, exB] (0, 0) = None"
proof -
  have a: "inBox (hitBox exMeasure exCanvas exA) (500, 250)"
    by (simp add: ex_defs box_defs)
  have b: "inBox (hitBox exMeasure exCanvas exB) (500, 250)"
    by (simp add: ex_defs box_defs)
  have c: "hitTest exMeasure exCanvas [exA, exB] (500, 250) = Some 1"
    using hitTest_topmost[of exMeasure exCanvas "[exA, exB]" "(500, 250)" 1 exA exB] a b
    by blast
  have d: "hitTest exMeasure exCanvas [exA, exB] (450, 250) = Some 0"
    by (simp add: ex_defs hitTest_def numeral_2_eq_2 box_defs)
  have e: "hitTest exMeasure exCanvas [exA, exB] (0, 0) = None"
    by (simp add: ex_defs hitTest_def numeral_2_eq_2 box_defs)
  from a b c d e show ?thesis by blast
qed

text \<open>The overlay that a mouse-down selects is the one the hit test returns.\<close>

lemma handleCanvasMouseDown_selection:
  "\<not> falsy (currentImage s) \<Longrightarrow>
   selectedTextId (handleCanvasMouseDown mw canvas e s) =
     map_option (\<lambda>i. ov_id (textOverlays s ! i))
       (hitTest mw canvas (textOverlays s) (getCanvasCoordinates canvas e))"
  by (simp add: handleCanvasMouseDown_def Let_def split: option.splits)

section \<open>Dragging\<close>

text \<open>
  C7, for every overlay whose box contains the point: a mouse-down at a point inside the
  box of an overlay \<open>O\<close>, followed by a mouse-move by \<open>(20, 10)\<close> while dragging, does not
  always move the anchor of \<open>O\<close>. The point (510, 254) is inside the boxes of both
  overlays of the example; the mouse-down selects the upper one, \<open>BB\<close>, the drag moves
  that one, and the anchor of the lower one, \<open>AAAA\<close>, stays at (500, 250).
\<close>

theorem drag_leaves_covered_overlay:
  "getCanvasCoordinates exCanvas exDown = (510, 254)
   \<and> getCanvasCoordinates exCanvas exMove = (510 + 20, 254 + 10)
   \<and> inBox (hitBox exMeasure exCanvas (textOverlays exState ! 0)) (510, 254)
   \<and> isDragging (handleCanvasMouseDown exMeasure exCanvas exDown exState)
   \<and> selectedTextId (handleCanvasMouseDown exMeasure exCanvas exDown exState) = Some (js ''2'')
   \<and> anchor exCanvas (textOverlays exState ! 0) = (500, 250)
   \<and> anchor exCanvas (textOverlays (handleCanvasMouseMove exCanvas exMove
        (handleCanvasMouseDown exMeasure exCanvas exDown exState)) ! 0) = (500, 250)
   \<and> anchor exCanvas (textOverlays (handleCanvasMouseMove exCanvas exMove
        (handleCanvasMouseDown exMeasure exCanvas exDown exState)) ! 0)
       \<noteq> (fst (anchor exCanvas (textOverlays exState ! 0)) + 20,
          snd (anchor exCanvas (textOverlays exState ! 0)) + 10)"
proof -
  have down: "getCanvasCoordinates exCanvas exDown = (510, 254)"
    by (simp add: ex_defs getCanvasCoordinates_def Let_def)
  have move: "getCanvasCoordinates exCanvas exMove = (530, 264)"
    by (simp add: ex_defs getCanvasCoordinates_def Let_def)
  have inA: "inBox (hitBox exMeasure exCanvas (textOverlays exState ! 0)) (510, 254)"
    by (simp add: ex_defs box_defs)
  have hit: "hitTest exMeasure exCanvas (textOverlays exState) (510, 254) = Some 1"
    by (simp add: ex_defs hitTest_def numeral_2_eq_2 box_defs)
  have s1: "handleCanvasMouseDown exMeasure exCanvas exDown exState =
      exState\<lparr>selectedTextId := Some (js ''2''), isDragging := True, dragOffset := (10, 4)\<rparr>"
    using hit by (simp add: handleCanvasMouseDown_def down falsy_def Let_def)
      (simp add: ex_defs)
  have before: "anchor exCanvas (textOverlays exState ! 0) = (500, 250)"
    by (simp add: ex_defs anchor_def)
  have after: "anchor exCanvas (textOverlays (handleCanvasMouseMove exCanvas exMove
        (handleCanvasMouseDown exMeasure exCanvas exDown exState)) ! 0) = (500, 250)"
    unfolding s1 by (simp add: handleCanvasMouseMove_def move falsy_def Let_def)
      (simp add: ex_defs anchor_def)
  from down move inA before after show ?thesis by (simp add: s1)
qed

text \<open>
  C7, amended. A mouse-down at the point \<open>P = (px, py)\<close> that the hit test resolves to the
  overlay \<open>O\<close> at index \<open>i\<close> (\<open>P\<close> is inside the box of \<open>O\<close> and in the box of no overlay
  above it), followed by a mouse-move to \<open>P + (dx, dy)\<close>, moves the anchor of \<open>O\<close> by exactly
  \<open>(dx, dy)\<close> in pixel space: the overlay keeps its offset to the pointer and does not snap
  to it. The canvas has a loaded image and a nonzero size, on the screen as well, and the
  identifier of \<open>O\<close> is not the empty string.
\<close>

theorem drag_preserves_offset:
  assumes img: "\<not> falsy (currentImage s)"
    and size: "0 < cwidth canvas" "0 < cheight canvas"
    and rect: "rectWidth canvas \<noteq> 0" "rectHeight canvas \<noteq> 0"
    and down: "getCanvasCoordinates canvas e1 = (px, py)"
    and hit: "hitTest mw canvas (textOverlays s) (px, py) = Some i"
    and ident: "ov_id (textOverlays s ! i) \<noteq> []"
    and move: "getCanvasCoordinates canvas e2 = (px + dx, py + dy)"
  shows "anchor canvas (textOverlays (handleCanvasMouseMove canvas e2
            (handleCanvasMouseDown mw canvas e1 s)) ! i) =
         (fst (anchor canvas (textOverlays s ! i)) + dx,
          snd (anchor canvas (textOverlays s ! i)) + dy)"
proof -
  let ?s1 = "handleCanvasMouseDown mw canvas e1 s"
  let ?o = "textOverlays s ! i"
  from hit have i: "i < length (textOverlays s)"
    by (simp add: hitTest_def hitLoop_Some)
  have s1: "?s1 = s\<lparr>selectedTextId := Some (ov_id ?o), isDragging := True,
        dragOffset := (px - (ov_x ?o / 100) * real (cwidth canvas),
                       py - (ov_y ?o / 100) * real (cheight canvas))\<rparr>"
    using img down hit by (simp add: handleCanvasMouseDown_def Let_def)
  have "textOverlays (handleCanvasMouseMove canvas e2 ?s1) ! i =
        ?o\<lparr>ov_x := ((px + dx - (px - (ov_x ?o / 100) * real (cwidth canvas)))
                    / real (cwidth canvas)) * 100,
           ov_y := ((py + dy - (py - (ov_y ?o / 100) * real (cheight canvas)))
                    / real (cheight canvas)) * 100\<rparr>"
    using i ident move unfolding s1 by (simp add: handleCanvasMouseMove_def falsy_def Let_def)
  then show ?thesis using size by (simp add: anchor_def field_simps)
qed

text \<open>
  The run of the example: the press is 10 to the right of and 4 below the anchor of
  \<open>BB\<close>, that offset is recorded, and after the move the anchor is at (520, 260), still
  10 to the left of and 4 above the pointer at (530, 264).
\<close>

theorem drag_preserves_offset_witness:
  "getCanvasCoordinates exCanvas exDown = (510, 254)
   \<and> getCanvasCoordinates exCanvas exMove = (530, 264)
   \<and> hitTest exMeasure exCanvas (textOverlays exState) (510, 254) = Some 1
   \<and> anchor exCanvas (textOverlays exState ! 1) = (500, 250)
   \<and> dragOffset (handleCanvasMouseDown exMeasure exCanvas exDown exState) = (10, 4)
   \<and> anchor exCanvas (textOverlays (handleCanvasMouseMove exCanvas exMove
        (handleCanvasMouseDown exMeasure exCanvas exDown exState)) ! 1) = (520, 260)
   \<and> anchor exCanvas (textOverlays (handleCanvasMouseMove exCanvas exMove
        (handleCanvasMouseDown exMeasure exCanvas exDown exState)) ! 1)
       \<noteq> getCanvasCoordinates exCanvas exMove"
proof -
  have img: "\<not> falsy (currentImage exState)"
    by (simp add: ex_defs falsy_def)
  have size: "0 < cwidth exCanvas" "0 < cheight exCanvas"
    by (simp_all add: exCanvas_def)
  have rect: "rectWidth exCanvas \<noteq> 0" "rectHeight exCanvas \<noteq> 0"
    by (simp_all add: exCanvas_def)
  have down: "getCanvasCoordinates exCanvas exDown = (510, 254)"
    by (simp add: ex_defs getCanvasCoordinates_def Let_def)
  have hit: "hitTest exMeasure exCanvas (textOverlays exState) (510, 254) = Some 1"
    by (simp add: ex_defs hitTest_def numeral_2_eq_2 box_defs)
  have ident: "ov_id (textOverlays exState ! 1) \<noteq> []"
    by (simp add: ex_defs)
  have move: "getCanvasCoordinates exCanvas exMove = (510 + 20, 254 + 10)"
    by (simp add: ex_defs getCanvasCoordinates_def Let_def)
  have before: "anchor exCanvas (textOverlays exState ! 1) = (500, 250)"
    by (simp add: ex_defs anchor_def)
  have offset: "dragOffset (handleCanvasMouseDown exMeasure exCanvas exDown exState) = (10, 4)"
    using hit by (simp add: handleCanvasMouseDown_def down falsy_def Let_def)
      (simp add: ex_defs)
  from drag_preserves_offset[OF img size rect down hit ident move] before down hit move offset
  show ?thesis by simp
qed

section \<open>The selection outline\<close>

text \<open>
  The outline is stroked for the selected overlay on the preview canvas only, and its
  rectangle is \<open>selectionRect\<close>.
\<close>

lemma outline_drawn_iff:
  "StrokeRect a b c d \<in> set (drawOverlay mw cv w h sel ov) \<longleftrightarrow>
     sel = Some (ov_id ov) \<and> cv = PreviewCanvas \<and> selectionRect mw w h ov = (a, b, c, d)"
proof -
  obtain x y w' h' where r: "selectionRect mw w h ov = (x, y, w', h')"
    by (metis prod_cases4)
  show ?thesis
    unfolding drawOverlay_def Let_def r prod.case by auto
qed

text \<open>
  C4, with equal width and height: the outline of a selected overlay on the preview canvas
  does not have the width and the height of its hit-test box. On the 1000 by 500 canvas
  the overlay \<open>AAAA\<close> has a hit-test box of 115.2 by 48 and an outline of 135.2 by 68.
\<close>

theorem outline_is_not_hit_box:
  "StrokeRect (2162 / 5) 216 (676 / 5) 68
     \<in> set (drawOverlay exMeasure PreviewCanvas (cwidth exCanvas) (cheight exCanvas)
             (Some (ov_id exA)) exA)
   \<and> boxWidth (hitBox exMeasure exCanvas exA) = 576 / 5
   \<and> rectW (selectionRect exMeasure (cwidth exCanvas) (cheight exCanvas) exA) = 676 / 5
   \<and> boxHeight (hitBox exMeasure exCanvas exA) = 48
   \<and> rectH (selectionRect exMeasure (cwidth exCanvas) (cheight exCanvas) exA) = 68
   \<and> rectW (selectionRect exMeasure (cwidth exCanvas) (cheight exCanvas) exA)
       \<noteq> boxWidth (hitBox exMeasure exCanvas exA)
   \<and> rectH (selectionRect exMeasure (cwidth exCanvas) (cheight exCanvas) exA)
       \<noteq> boxHeight (hitBox exMeasure exCanvas exA)"
proof -
  have r: "selectionRect exMeasure (cwidth exCanvas) (cheight exCanvas) exA
             = (2162 / 5, 216, 676 / 5, 68)"
    by (simp add: ex_defs selectionRect_def drawFont_def Let_def)
  have drawn: "StrokeRect (2162 / 5) 216 (676 / 5) 68
     \<in> set (drawOverlay exMeasure PreviewCanvas (cwidth exCanvas) (cheight exCanvas)
             (Some (ov_id exA)) exA)"
    by (simp add: outline_drawn_iff r)
  have w: "boxWidth (hitBox exMeasure exCanvas exA) = 576 / 5"
    by (simp add: ex_defs box_defs)
  have h: "boxHeight (hitBox exMeasure exCanvas exA) = 48"
    by (simp add: ex_defs box_defs)
  from drawn show ?thesis by (simp add: r w h)
qed

text \<open>
  C4, amended: the outline of an overlay has the centre of its hit-test box and is 20
  pixels higher; it is 20 pixels wider as well when the text measures the same under the
  font string of the renderer (which names \<open>monospace\<close> as a fallback) and under the font
  string of the hit test (which does not).
\<close>

theorem outline_pads_hit_box:
  "rectCenter (selectionRect mw (cwidth canvas) (cheight canvas) ov)
     = boxCenter (hitBox mw canvas ov)
   \<and> rectH (selectionRect mw (cwidth canvas) (cheight canvas) ov)
     = boxHeight (hitBox mw canvas ov) + 20
   \<and> (mw (drawFont (fontSize ov * (real (cwidth canvas) / 1000)) (fontFamily ov)) (ov_text ov) =
       mw (hitFont (fontSize ov * (real (cwidth canvas) / 1000)) (fontFamily ov)) (ov_text ov)
      \<longrightarrow> rectW (selectionRect mw (cwidth canvas) (cheight canvas) ov)
            = boxWidth (hitBox mw canvas ov) + 20)"
  by (simp add: selectionRect_def hitBox_def boxCenter_def boxHeight_def boxWidth_def Let_def)

theorem outline_pads_hit_box_witness:
  "rectCenter (selectionRect exMeasure (cwidth exCanvas) (cheight exCanvas) exA) = (500, 250)
   \<and> boxCenter (hitBox exMeasure exCanvas exA) = (500, 250)
   \<and> rectH (selectionRect exMeasure (cwidth exCanvas) (cheight exCanvas) exA) = 48 + 20
   \<and> rectW (selectionRect exMeasure (cwidth exCanvas) (cheight exCanvas) exA) = 576 / 5 + 20"
proof -
  have m: "exMeasure (drawFont (fontSize exA * (real (cwidth exCanvas) / 1000))
             (fontFamily exA)) (ov_text exA) =
           exMeasure (hitFont (fontSize exA * (real (cwidth exCanvas) / 1000))
             (fontFamily exA)) (ov_text exA)"
    by (simp add: exMeasure_def drawFont_def hitFont_def)
  have c: "boxCenter (hitBox exMeasure exCanvas exA) = (500, 250)"
    by (simp add: ex_defs box_defs)
  have h: "boxHeight (hitBox exMeasure exCanvas exA) = 48"
    by (simp add: ex_defs box_defs)
  have w: "boxWidth (hitBox exMeasure exCanvas exA) = 576 / 5"
    by (simp add: ex_defs box_defs)
  from outline_pads_hit_box[of exMeasure exCanvas exA] m c h w show ?thesis by simp
qed

end
